theory Spec2Isabelle
  imports Main
begin

section \<open>Shared data model\<close>

text \<open>
  An identity names a resource kind by its singular \<open>Name\<close> and its plural
  \<open>Category\<close>. \<open>IdentityString\<close> is the text \<open>%s\<close> prints for it, as the model
  library writes identities.
\<close>

record Identity =
  Name :: string
  Category :: string

definition IdentityString :: "Identity \<Rightarrow> string" where
  "IdentityString i = ''<Identity '' @ Name i @ ''|'' @ Category i @ ''>''"

text \<open>
  A structured error of the model library, and the Go \<open>error\<close> values the handlers
  tell apart: the two sentinels of package \<open>context\<close>, a structured error, a list of
  them, and any other error (known by its message only).
\<close>

record elementalError =
  Code :: int
  Description :: string
  Subject :: string
  Title :: string
  Trace :: string

datatype goerror =
    ContextCanceled
  | ContextDeadlineExceeded
  | ElementalError elementalError
  | ElementalErrors "elementalError list"
  | ErrorString string

section \<open>Server: the processor registry\<close>

text \<open>
  The server keeps \<open>processors\<close>, a Go map from identity names to processors;
  \<open>NewServer\<close> creates it empty. A processor is any value of type \<open>'p\<close>.
\<close>

record 'p server =
  processors :: "string \<rightharpoonup> 'p"

definition NewServer :: "'p server" where
  "NewServer = \<lparr>processors = Map.empty\<rparr>"

definition RegisterProcessor :: "'p server \<Rightarrow> 'p \<Rightarrow> Identity \<Rightarrow> goerror option \<times> 'p server" where
  "RegisterProcessor b processor identity =
     (case processors b (Name identity) of
        Some _ \<Rightarrow>
          (Some (ErrorString (''identity '' @ IdentityString identity
                   @ '' already has a registered processor'')), b)
      | None \<Rightarrow>
          (None, b\<lparr>processors := (processors b)(Name identity \<mapsto> processor)\<rparr>))"

definition UnregisterProcessor :: "'p server \<Rightarrow> Identity \<Rightarrow> goerror option \<times> 'p server" where
  "UnregisterProcessor b identity =
     (case processors b (Name identity) of
        None \<Rightarrow>
          (Some (ErrorString (''no registered processor for identity ''
                   @ IdentityString identity)), b)
      | Some _ \<Rightarrow>
          (None, b\<lparr>processors := (processors b)(Name identity := None)\<rparr>))"

definition ProcessorForIdentity :: "'p server \<Rightarrow> Identity \<Rightarrow> goerror + 'p" where
  "ProcessorForIdentity b identity =
     (case processors b (Name identity) of
        None \<Rightarrow>
          Inl (ErrorString (''no registered processor for identity ''
                 @ IdentityString identity))
      | Some p \<Rightarrow> Inr p)"

section \<open>Requests, responses and contexts\<close>

text \<open>
  An operation is a string of the model library; a request may carry any string, and
  the handlers compare it with the seven constants below.
\<close>

type_synonym Operation = string

definition OperationRetrieveMany :: Operation where "OperationRetrieveMany = ''retrieve-many''"
definition OperationRetrieve :: Operation where "OperationRetrieve = ''retrieve''"
definition OperationCreate :: Operation where "OperationCreate = ''create''"
definition OperationUpdate :: Operation where "OperationUpdate = ''update''"
definition OperationDelete :: Operation where "OperationDelete = ''delete''"
definition OperationInfo :: Operation where "OperationInfo = ''info''"
definition OperationPatch :: Operation where "OperationPatch = ''patch''"

definition StatusOK :: int where "StatusOK = 200"
definition StatusCreated :: int where "StatusCreated = 201"
definition StatusNoContent :: int where "StatusNoContent = 204"
definition StatusMethodNotAllowed :: int where "StatusMethodNotAllowed = 405"
definition StatusRequestTimeout :: int where "StatusRequestTimeout = 408"
definition StatusInternalServerError :: int where "StatusInternalServerError = 500"

text \<open>
  Byte slices. A Go \<open>[]byte\<close> is a reference into a backing array, and two slices of
  one array see each other's writes. The store holds the arrays by address; a slice is
  nil or refers to a whole array. \<open>sliceAll s\<close> is the Go expression \<open>s[:]\<close>: it
  yields a slice of the same array and copies nothing.
\<close>

type_synonym addr = nat
type_synonym store = "string list"

datatype slice = NilSlice | Slice addr

definition bytesOf :: "store \<Rightarrow> slice \<Rightarrow> string" where
  "bytesOf st s =
     (case s of NilSlice \<Rightarrow> [] | Slice a \<Rightarrow> (if a < length st then st ! a else []))"

definition alloc :: "store \<Rightarrow> string \<Rightarrow> slice \<times> store" where
  "alloc st bs = (Slice (length st), st @ [bs])"

definition writeBytes :: "store \<Rightarrow> slice \<Rightarrow> string \<Rightarrow> store" where
  "writeBytes st s bs =
     (case s of NilSlice \<Rightarrow> st | Slice a \<Rightarrow> (if a < length st then st[a := bs] else st))"

definition sliceAll :: "slice \<Rightarrow> slice" where
  "sliceAll s = s"

record Request =
  Operation :: Operation
  Identity :: Identity
  ParentIdentity :: Identity
  Version :: int
  Headers :: "(string \<rightharpoonup> string list) option"

record Response =
  Request :: Request
  StatusCode :: int
  Total :: int
  Messages :: "string list"
  Redirect :: string
  Data :: slice

definition NewResponse :: "Request \<Rightarrow> Response" where
  "NewResponse req =
     \<lparr>Request = req, StatusCode = 0, Total = 0, Messages = [], Redirect = [], Data = NilSlice\<rparr>"

text \<open>
  The trace span attached to a Go context: the fields logged on it and the integer tags
  set on it, in order, and the identifier errors are stamped with.
\<close>

datatype logField =
    LogInt string int
  | LogStrings string "string list"
  | LogString string string

record span =
  traceID :: string
  loggedFields :: "logField list"
  tags :: "(string \<times> int) list"

record gocontext =
  ctxSpan :: "span option"

text \<open>
  Output data set by a processor. An identifiable is its list of attributes in
  declaration order, each a string, a boolean, null or a Go value no encoder accepts
  (a channel, say); the other constructors are the sparse projections the model
  library returns and any other Go value (known by its JSON text).
\<close>

datatype attrValue = AString string | ABool bool | ANull | AUnsupported

type_synonym identifiable = "(string \<times> attrValue) list"

datatype outputData =
    PlainIdentifiable identifiable
  | PlainIdentifiables "identifiable list"
  | SparseIdentifiable identifiable
  | SparseIdentifiables "identifiable list"
  | OtherData string

record bcontext =
  request :: Request
  statusCode :: int
  count :: int
  messages :: "string list"
  outputData :: "outputData option"
  redirect :: string
  ctx :: gocontext

text \<open>The constructors the handlers and the tests use.\<close>

definition emptyIdentity :: Identity where
  "emptyIdentity = \<lparr>Name = [], Category = []\<rparr>"

text \<open>\<open>elemental.NewRequest()\<close>: no operation, empty identities, an empty header map.\<close>

definition NewRequest :: Request where
  "NewRequest =
     \<lparr>Operation = [], Identity = emptyIdentity, ParentIdentity = emptyIdentity, Version = 0,
      Headers = Some Map.empty\<rparr>"

text \<open>\<open>newContext(context.TODO(), req)\<close>: nothing set, no span.\<close>

definition newContext :: "Request \<Rightarrow> bcontext" where
  "newContext req =
     \<lparr>request = req, statusCode = 0, count = 0, messages = [], outputData = None,
      redirect = [], ctx = \<lparr>ctxSpan = None\<rparr>\<rparr>"

text \<open>
  What a call does: it returns a value, panics, or never returns.
\<close>

datatype 'a outcome = Returned 'a | Panicked string | Blocked

section \<open>The model library\<close>

text \<open>
  The handlers call into the model library (package \<open>elemental\<close>), which is not part
  of this repository. Its encoder and its secret-attribute predicate are parameters of
  the model: \<open>Encode req v\<close> is what \<open>r.Encode(v)\<close> produces for a response \<open>r\<close> to
  request \<open>req\<close> (the bytes, or the error's message; the encoding is negotiated by
  the request), and \<open>secretAttribute\<close> tells which attributes are secret.
\<close>

datatype encodable = OutputValue outputData | ErrorsValue "elementalError list"

record elemental =
  Encode :: "Request \<Rightarrow> encodable \<Rightarrow> string + string"
  secretAttribute :: "string \<Rightarrow> bool"

text \<open>
  Modelled from the spec: the library's \<open>ResetSecretAttributesValues\<close>, \<open>ToSparse\<close>,
  \<open>NewError\<close> and the \<open>Code\<close> of an error list, none of which is among the source
  files. The spec (4.2) has the handler "strip secret attributes on the output data
  (using an identity-aware predicate provided by the model library)" and "project sparse
  output containing only the listed attributes (single identifiable and lists both
  supported)". Stripping sets a secret attribute to the zero value of its type and
  leaves the attribute in place. A list of errors has the code of its first error,
  and -1 when it is empty.
\<close>

fun zeroValue :: "attrValue \<Rightarrow> attrValue" where
  "zeroValue (AString _) = AString []"
| "zeroValue (ABool _) = ABool False"
| "zeroValue ANull = ANull"
| "zeroValue AUnsupported = ANull"

definition resetSecrets :: "elemental \<Rightarrow> identifiable \<Rightarrow> identifiable" where
  "resetSecrets lib obj =
     map (\<lambda>(k, v). if secretAttribute lib k then (k, zeroValue v) else (k, v)) obj"

fun ResetSecretAttributesValues :: "elemental \<Rightarrow> outputData \<Rightarrow> outputData" where
  "ResetSecretAttributesValues lib (PlainIdentifiable obj) = PlainIdentifiable (resetSecrets lib obj)"
| "ResetSecretAttributesValues lib (PlainIdentifiables objs) =
     PlainIdentifiables (map (resetSecrets lib) objs)"
| "ResetSecretAttributesValues lib (SparseIdentifiable obj) = SparseIdentifiable (resetSecrets lib obj)"
| "ResetSecretAttributesValues lib (SparseIdentifiables objs) =
     SparseIdentifiables (map (resetSecrets lib) objs)"
| "ResetSecretAttributesValues lib (OtherData x) = OtherData x"

text \<open>
  \<open>ToSparse\<close> keeps the attributes whose names are listed, in the object's own order
  (the tests ask for \<open>name\<close>, \<open>ID\<close> and read \<open>ID\<close> before \<open>name\<close>); with no field
  listed it keeps them all.
\<close>

definition ToSparse :: "identifiable \<Rightarrow> string list \<Rightarrow> identifiable" where
  "ToSparse obj names =
     (if names = [] then obj else filter (\<lambda>(k, v). k \<in> set names) obj)"

definition NewError :: "string \<Rightarrow> string \<Rightarrow> string \<Rightarrow> int \<Rightarrow> elementalError" where
  "NewError title description subject code =
     \<lparr>Code = code, Description = description, Subject = subject, Title = title, Trace = []\<rparr>"

definition ErrorsCode :: "elementalError list \<Rightarrow> int" where
  "ErrorsCode es = (case es of [] \<Rightarrow> - 1 | e # _ \<Rightarrow> Code e)"

section \<open>Handler shell: response shaping\<close>

text \<open>
  A trace cleaner receives the identity and the slice of encoded bytes and returns a
  slice; being Go code that holds a slice, it can also write through it, so it acts on
  the store.
\<close>

type_synonym TraceCleaner = "Identity \<Rightarrow> slice \<Rightarrow> store \<Rightarrow> slice \<times> store"

text \<open>
  The deferred closure of \<open>makeResponse\<close>: when the context carries a span, log the
  collected fields on it and tag it with the response's status code.
\<close>

definition logSpan :: "bcontext \<Rightarrow> logField list \<Rightarrow> int \<Rightarrow> bcontext" where
  "logSpan c logged code =
     (case ctxSpan (ctx c) of
        None \<Rightarrow> c
      | Some sp \<Rightarrow>
          c\<lparr>ctx := (ctx c)\<lparr>ctxSpan :=
               Some (sp\<lparr>loggedFields := loggedFields sp @ logged,
                        tags := tags sp @ [(''status.code'', code)]\<rparr>)\<rparr>\<rparr>)"

definition requestedFields :: "Request \<Rightarrow> string list" where
  "requestedFields req =
     (case Headers req of
        None \<Rightarrow> []
      | Some h \<Rightarrow> (case h ''X-Fields'' of None \<Rightarrow> [] | Some fs \<Rightarrow> fs))"

text \<open>
  \<open>makeResponse\<close> mutates the context and the response it is given and returns the
  response; the model returns what the call does, the context and the store after it.
  Its steps, in the order of the source:
  \<^item> \<open>deriveStatus\<close>: the status code is the context's override, or follows from the
    operation when the override is 0;
  \<^item> \<open>copyCount\<close>, \<open>copyMessages\<close>: the count (for RetrieveMany and Info) and the
    messages (when there are any) are copied and collected as span fields;
  \<^item> \<open>projectOutput\<close>: secret attributes are blanked, and when the request has
    \<open>X-Fields\<close> values an identifiable or a list of them is replaced by its sparse
    projection;
  \<^item> the output is encoded into fresh bytes, which become the response's \<open>Data\<close>; a
    failure to encode panics;
  \<^item> \<open>traceData\<close>: \<open>data := response.Data[:]\<close> is handed to the cleaner, if there is
    one, and what comes back is read as the span's \<open>response\<close> field.
\<close>

definition deriveStatus :: "bcontext \<Rightarrow> Response \<Rightarrow> Response" where
  "deriveStatus c response =
     (let r = response\<lparr>StatusCode := statusCode c\<rparr> in
      if StatusCode r = 0 then
        (if Operation (request c) = OperationCreate then r\<lparr>StatusCode := StatusCreated\<rparr>
         else if Operation (request c) = OperationInfo then r\<lparr>StatusCode := StatusNoContent\<rparr>
         else r\<lparr>StatusCode := StatusOK\<rparr>)
      else r)"

definition copyCount :: "bcontext \<Rightarrow> Response \<times> logField list \<Rightarrow> Response \<times> logField list" where
  "copyCount c rf =
     (if Operation (request c) = OperationRetrieveMany \<or> Operation (request c) = OperationInfo
      then ((fst rf)\<lparr>Total := count c\<rparr>, snd rf @ [LogInt ''count-total'' (count c)])
      else rf)"

definition copyMessages :: "bcontext \<Rightarrow> Response \<times> logField list \<Rightarrow> Response \<times> logField list" where
  "copyMessages c rf =
     (if messages c \<noteq> []
      then ((fst rf)\<lparr>Messages := messages c\<rparr>, snd rf @ [LogStrings ''messages'' (messages c)])
      else rf)"

definition projectOutput :: "elemental \<Rightarrow> Request \<Rightarrow> outputData \<Rightarrow> outputData" where
  "projectOutput lib req od =
     (let wanted = requestedFields req;
          od1 = ResetSecretAttributesValues lib od
      in if wanted \<noteq> [] then
           (case od1 of
              PlainIdentifiable obj \<Rightarrow> SparseIdentifiable (ToSparse obj wanted)
            | PlainIdentifiables objs \<Rightarrow>
                SparseIdentifiables (map (\<lambda>obj. ToSparse obj wanted) objs)
            | SparseIdentifiable obj \<Rightarrow> od1
            | SparseIdentifiables objs \<Rightarrow> od1
            | OtherData x \<Rightarrow> od1)
         else od1)"

definition traceData :: "TraceCleaner option \<Rightarrow> Response \<Rightarrow> store \<Rightarrow> string \<times> store" where
  "traceData cleaner r st =
     (let dat = sliceAll (Data r) in
      case cleaner of
        None \<Rightarrow> (bytesOf st dat, st)
      | Some clean \<Rightarrow>
          (let cleaned = clean (Identity (Request r)) dat st
           in (bytesOf (snd cleaned) (fst cleaned), snd cleaned)))"

definition makeResponse ::
  "elemental \<Rightarrow> bcontext \<Rightarrow> Response \<Rightarrow> TraceCleaner option \<Rightarrow> store
     \<Rightarrow> Response option outcome \<times> bcontext \<times> store" where
  "makeResponse lib c response cleaner st =
     (if redirect c \<noteq> [] then
        (Returned (Some (response\<lparr>Redirect := redirect c\<rparr>)), c, st)
      else
        let rf = copyMessages c (copyCount c (deriveStatus c response, []))
        in
          case outputData c of
            None \<Rightarrow>
              (let r = (fst rf)\<lparr>StatusCode := StatusNoContent\<rparr>
               in (Returned (Some r), logSpan c (snd rf) (StatusCode r), st))
          | Some od \<Rightarrow>
              (let od' = projectOutput lib (request c) od;
                   c1 = c\<lparr>outputData := Some od'\<rparr>
               in
                 case Encode lib (Request (fst rf)) (OutputValue od') of
                   Inl err \<Rightarrow>
                     (Panicked (''unable to encode output data: '' @ err),
                      logSpan c1 (snd rf) (StatusCode (fst rf)), st)
                 | Inr bytes \<Rightarrow>
                     (let allocated = alloc st bytes;
                          r = (fst rf)\<lparr>Data := fst allocated\<rparr>;
                          traced = traceData cleaner r (snd allocated)
                      in (Returned (Some r),
                          logSpan c1 (snd rf @ [LogString ''response'' (fst traced)]) (StatusCode r),
                          snd traced))))"

section \<open>Text helpers\<close>

text \<open>Joining strings with a separator, and integers in decimal.\<close>

fun joinWith :: "string \<Rightarrow> string list \<Rightarrow> string" where
  "joinWith sep [] = []"
| "joinWith sep [x] = x"
| "joinWith sep (x # y # ys) = x @ sep @ joinWith sep (y # ys)"

fun showNat :: "nat \<Rightarrow> string" where
  "showNat n =
     (if n < 10 then [''0123456789'' ! n]
      else showNat (n div 10) @ [''0123456789'' ! (n mod 10)])"

declare showNat.simps [simp del]

definition showInt :: "int \<Rightarrow> string" where
  "showInt i = (if i < 0 then ''-'' @ showNat (nat (- i)) else showNat (nat i))"

section \<open>Handler shell: error responses, panics and the runner\<close>

text \<open>The text of a Go error (\<open>err.Error()\<close>), and of a panic value (\<open>%v\<close>).\<close>

definition elementalErrorText :: "elementalError \<Rightarrow> string" where
  "elementalErrorText e =
     ''error '' @ showInt (Code e) @ '' ('' @ Subject e @ ''): '' @ Title e @ '': '' @ Description e"

definition errorMessage :: "goerror \<Rightarrow> string" where
  "errorMessage err =
     (case err of
        ContextCanceled \<Rightarrow> ''context canceled''
      | ContextDeadlineExceeded \<Rightarrow> ''context deadline exceeded''
      | ElementalError e \<Rightarrow> elementalErrorText e
      | ElementalErrors es \<Rightarrow> joinWith '', '' (map elementalErrorText es)
      | ErrorString m \<Rightarrow> m)"

datatype panicValue = PanicString string | PanicError goerror

definition formatPanic :: "panicValue \<Rightarrow> string" where
  "formatPanic v = (case v of PanicString s \<Rightarrow> s | PanicError err \<Rightarrow> errorMessage err)"

text \<open>
  Modelled from the spec: \<open>extractSpanID\<close> and \<open>processError\<close>, which
  \<open>makeErrorResponse\<close> calls and which are not among the source files. The spec (7)
  has errors wrapped into its taxonomy, "preserving a trace identifier (from the active
  span, or \<open>unknown\<close>)": a structured error or a list of them is kept, a deadline
  exceeded is Timeout (408), anything else is Internal (500) described by the error's
  message. \<open>TestHandlers_makeErrorResponse\<close> gives the title and subject of the
  latter.
\<close>

definition extractSpanID :: "span option \<Rightarrow> string" where
  "extractSpanID sp = (case sp of None \<Rightarrow> ''unknown'' | Some s \<Rightarrow> traceID s)"

definition processError :: "gocontext \<Rightarrow> goerror \<Rightarrow> elementalError list" where
  "processError gc err =
     map (\<lambda>e. e\<lparr>Trace := extractSpanID (ctxSpan gc)\<rparr>)
       (case err of
          ElementalError e \<Rightarrow> [e]
        | ElementalErrors es \<Rightarrow> es
        | ContextDeadlineExceeded \<Rightarrow>
            [NewError ''Request Timeout'' (errorMessage err) ''bahamut'' StatusRequestTimeout]
        | ContextCanceled \<Rightarrow>
            [NewError ''Internal Server Error'' (errorMessage err) ''elemental''
               StatusInternalServerError]
        | ErrorString m \<Rightarrow>
            [NewError ''Internal Server Error'' m ''elemental'' StatusInternalServerError])"

text \<open>
  \<open>makeErrorResponse\<close> returns nil for \<open>context.Canceled\<close>; otherwise it sets the
  status code of the response it is given, encodes the errors into it and returns it.
  The response is a pointer: nil is \<open>None\<close>, and using it then panics.
\<close>

definition makeErrorResponse ::
  "elemental \<Rightarrow> gocontext \<Rightarrow> Response option \<Rightarrow> goerror \<Rightarrow> store
     \<Rightarrow> Response option outcome \<times> store" where
  "makeErrorResponse lib gc response err st =
     (if err = ContextCanceled then (Returned None, st)
      else
        let outError = processError gc err in
        case response of
          None \<Rightarrow> (Panicked ''invalid memory address or nil pointer dereference'', st)
        | Some r \<Rightarrow>
            (let r1 = r\<lparr>StatusCode := ErrorsCode outError\<rparr> in
             case Encode lib (Request r1) (ErrorsValue outError) of
               Inl m \<Rightarrow> (Panicked (''unable to encode error: '' @ m), st)
             | Inr bytes \<Rightarrow>
                 (let allocated = alloc st bytes
                  in (Returned (Some (r1\<lparr>Data := fst allocated\<rparr>)), snd allocated))))"

text \<open>
  Modelled from the spec: \<open>handleRecoveredPanic\<close>, which \<open>handleEventualPanic\<close> calls
  and which is not among the source files. Given what \<open>recover()\<close> returned, it yields
  no error when nothing was recovered; for a recovered value it yields a 500 error
  with the value's text as description (4.2, 8.5; \<open>TestHandlers_handleEventualPanic\<close>
  gives title and subject), unless panic recovery is disabled: then the panic goes on
  (\<open>Inl\<close>).
\<close>

definition handleRecoveredPanic ::
  "gocontext \<Rightarrow> panicValue option \<Rightarrow> bool \<Rightarrow> panicValue + goerror option" where
  "handleRecoveredPanic gc recovered disablePanicRecovery =
     (case recovered of
        None \<Rightarrow> Inr None
      | Some v \<Rightarrow>
          if disablePanicRecovery then Inl v
          else Inr (Some (ElementalError
                 (NewError ''Internal Server Error'' (formatPanic v) ''bahamut''
                    StatusInternalServerError))))"

text \<open>
  \<open>handleEventualPanic\<close> runs deferred in the dispatcher's task. \<open>recovered\<close> is what
  \<open>recover()\<close> returns there: the panic in flight, if any. The task then sends an error
  on the channel, ends without sending, or dies of the panic.
\<close>

datatype taskEnd = Sends goerror | Ends | Crashes panicValue

definition handleEventualPanic :: "gocontext \<Rightarrow> panicValue option \<Rightarrow> bool \<Rightarrow> taskEnd" where
  "handleEventualPanic gc recovered disablePanicRecovery =
     (case handleRecoveredPanic gc recovered disablePanicRecovery of
        Inl v \<Rightarrow> Crashes v
      | Inr None \<Rightarrow> Ends
      | Inr (Some err) \<Rightarrow> Sends err)"

text \<open>
  A dispatcher closure \<open>d\<close> acts on the context and on the world \<open>'w\<close> of the
  processors (their databases, the counters of the tests); it returns an error or nil,
  or panics.
\<close>

datatype callResult = Returns "goerror option" | PanicsWith panicValue

type_synonym 'w dispatcher = "'w \<Rightarrow> bcontext \<Rightarrow> callResult \<times> bcontext \<times> 'w"

text \<open>
  The task of \<open>runDispatcher\<close>:
  \<^verbatim>\<open>go func() { defer handleEventualPanic(ctx.ctx, e, disablePanicRecovery); select { case e <- d(): default: } }()\<close>
  When \<open>d\<close> returns, its result is sent on the unbuffered channel \<open>e\<close> only if the
  runner is receiving at that moment (\<open>receiving\<close>); otherwise the \<open>default\<close> case
  drops it. The deferred call then recovers nothing. When \<open>d\<close> panics, the deferred
  call recovers the panic; the error it makes of it is sent with a blocking send.
\<close>

datatype taskEvent = Delivers "goerror option" | Nothing | Crash panicValue

definition dispatcherTask ::
  "'w dispatcher \<Rightarrow> bool \<Rightarrow> bool \<Rightarrow> bcontext \<Rightarrow> 'w \<Rightarrow> taskEvent \<times> bcontext \<times> 'w" where
  "dispatcherTask d disablePanicRecovery receiving c w =
     (case d w c of
        (Returns err, c', w') \<Rightarrow> ((if receiving then Delivers err else Nothing), c', w')
      | (PanicsWith v, c', w') \<Rightarrow>
          (case handleEventualPanic (ctx c') (Some v) disablePanicRecovery of
             Crashes v' \<Rightarrow> (Crash v', c', w')
           | Sends err \<Rightarrow> (Delivers (Some err), c', w')
           | Ends \<Rightarrow> (Nothing, c', w')))"

text \<open>
  The runner waits on \<open>ctx.Done()\<close> and on the channel \<open>e\<close>. Which fires first is not
  decided by the program; \<open>race\<close> says how a run went:
  \<^item> \<open>CtxDoneFirst cause\<close>: the context is cancelled before the task delivers anything,
    and \<open>ctx.Err()\<close> is \<open>cause\<close>;
  \<^item> \<open>RunnerReceives\<close>: the task finishes first, while the runner is receiving;
  \<^item> \<open>ResultDropped later\<close>: \<open>d\<close> returns before the runner is receiving, so its result
    is dropped; the runner then waits for the context, which is cancelled with cause
    \<open>later\<close> or never (\<open>None\<close>).
  In the first case the task has not finished: what it did so far, or does later, to the
  context and the world is not part of what the runner returns.
\<close>

datatype race = CtxDoneFirst goerror | RunnerReceives | ResultDropped "goerror option"

definition errorResult ::
  "elemental \<Rightarrow> bcontext \<Rightarrow> Response \<Rightarrow> goerror \<Rightarrow> store \<Rightarrow> 'w
     \<Rightarrow> Response option outcome \<times> bcontext \<times> store \<times> 'w" where
  "errorResult lib c r err st w =
     (let res = makeErrorResponse lib (ctx c) (Some r) err st in (fst res, c, snd res, w))"

definition runDispatcher ::
  "elemental \<Rightarrow> bcontext \<Rightarrow> Response \<Rightarrow> 'w dispatcher \<Rightarrow> bool \<Rightarrow> TraceCleaner option
     \<Rightarrow> race \<Rightarrow> store \<Rightarrow> 'w \<Rightarrow> Response option outcome \<times> bcontext \<times> store \<times> 'w" where
  "runDispatcher lib c r d disablePanicRecovery traceCleaner how st w =
     (case how of
        CtxDoneFirst cause \<Rightarrow> errorResult lib c r cause st w
      | RunnerReceives \<Rightarrow>
          (case dispatcherTask d disablePanicRecovery True c w of
             (Crash v, c', w') \<Rightarrow> (Panicked (formatPanic v), c', st, w')
           | (Nothing, c', w') \<Rightarrow> (Blocked, c', st, w')
           | (Delivers (Some err), c', w') \<Rightarrow> errorResult lib c' r err st w'
           | (Delivers None, c', w') \<Rightarrow>
               (let res = makeResponse lib c' r traceCleaner st
                in (fst res, fst (snd res), snd (snd res), w')))
      | ResultDropped later \<Rightarrow>
          (case dispatcherTask d disablePanicRecovery False c w of
             (Crash v, c', w') \<Rightarrow> (Panicked (formatPanic v), c', st, w')
           | (Nothing, c', w') \<Rightarrow>
               (case later of
                  None \<Rightarrow> (Blocked, c', st, w')
                | Some cause \<Rightarrow> errorResult lib c' r cause st w')
           | (Delivers (Some err), c', w') \<Rightarrow> errorResult lib c' r err st w'
           | (Delivers None, c', w') \<Rightarrow>
               (let res = makeResponse lib c' r traceCleaner st
                in (fst res, fst (snd res), snd (snd res), w'))))"

section \<open>Handler shell: the seven handlers\<close>

text \<open>
  What a handler needs of the configuration: the model managers by version (a manager
  is known by the relationships registry it returns), the panic-recovery switch and the
  trace cleaner. The registry is a value of the model library, queried with the
  library's \<open>IsOperationAllowed\<close>, a parameter of the handlers. The dispatcher a
  handler wraps (\<open>dispatchPatchOperation\<close> and its six siblings, applied to the
  collaborators of the configuration) is a parameter too.

  Each handler builds a fresh response for the context's request and asks the registry
  of the request's version; a version without model manager is a call on a nil
  interface, which panics. A forbidden operation is answered with the error response
  for "Not allowed" (405); otherwise the runner is started on the dispatcher.
\<close>

record 'r config =
  modelManagers :: "int \<rightharpoonup> 'r"
  panicRecoveryDisabled :: bool
  traceCleaner :: "TraceCleaner option"

type_synonym 'r isOperationAllowed = "'r \<Rightarrow> Identity \<Rightarrow> Identity \<Rightarrow> Operation \<Rightarrow> bool"

type_synonym 'w handled = "Response option outcome \<times> bcontext \<times> store \<times> 'w"

definition notAllowed :: "string \<Rightarrow> goerror" where
  "notAllowed description =
     ElementalError (NewError ''Not allowed'' description ''bahamut'' StatusMethodNotAllowed)"

definition handleRetrieveMany ::
  "elemental \<Rightarrow> 'r isOperationAllowed \<Rightarrow> bcontext \<Rightarrow> 'r config \<Rightarrow> 'w dispatcher
     \<Rightarrow> race \<Rightarrow> store \<Rightarrow> 'w \<Rightarrow> 'w handled" where
  "handleRetrieveMany lib IsOperationAllowed c cfg dispatchRetrieveManyOperation how st w =
     (let response = NewResponse (request c) in
      case modelManagers cfg (Version (request c)) of
        None \<Rightarrow> (Panicked ''invalid memory address or nil pointer dereference'', c, st, w)
      | Some relationships \<Rightarrow>
          if \<not> IsOperationAllowed relationships (Identity (request c))
                 (ParentIdentity (request c)) OperationRetrieveMany
          then errorResult lib c response
                 (notAllowed (''RetrieveMany operation not allowed on '' @ Category (Identity (request c))))
                 st w
          else runDispatcher lib c response dispatchRetrieveManyOperation
                 (panicRecoveryDisabled cfg) (traceCleaner cfg) how st w)"

definition handleRetrieve ::
  "elemental \<Rightarrow> 'r isOperationAllowed \<Rightarrow> bcontext \<Rightarrow> 'r config \<Rightarrow> 'w dispatcher
     \<Rightarrow> race \<Rightarrow> store \<Rightarrow> 'w \<Rightarrow> 'w handled" where
  "handleRetrieve lib IsOperationAllowed c cfg dispatchRetrieveOperation how st w =
     (let response = NewResponse (request c) in
      case modelManagers cfg (Version (request c)) of
        None \<Rightarrow> (Panicked ''invalid memory address or nil pointer dereference'', c, st, w)
      | Some relationships \<Rightarrow>
          if \<not> IsOperationAllowed relationships (Identity (request c))
                 (ParentIdentity (request c)) OperationRetrieve
          then errorResult lib c response
                 (notAllowed (''Retrieve operation not allowed on '' @ Name (Identity (request c))))
                 st w
          else runDispatcher lib c response dispatchRetrieveOperation
                 (panicRecoveryDisabled cfg) (traceCleaner cfg) how st w)"

definition handleCreate ::
  "elemental \<Rightarrow> 'r isOperationAllowed \<Rightarrow> bcontext \<Rightarrow> 'r config \<Rightarrow> 'w dispatcher
     \<Rightarrow> race \<Rightarrow> store \<Rightarrow> 'w \<Rightarrow> 'w handled" where
  "handleCreate lib IsOperationAllowed c cfg dispatchCreateOperation how st w =
     (let response = NewResponse (request c) in
      case modelManagers cfg (Version (request c)) of
        None \<Rightarrow> (Panicked ''invalid memory address or nil pointer dereference'', c, st, w)
      | Some relationships \<Rightarrow>
          if \<not> IsOperationAllowed relationships (Identity (request c))
                 (ParentIdentity (request c)) OperationCreate
          then errorResult lib c response
                 (notAllowed (''Create operation not allowed on '' @ Name (Identity (request c))))
                 st w
          else runDispatcher lib c response dispatchCreateOperation
                 (panicRecoveryDisabled cfg) (traceCleaner cfg) how st w)"

definition handleUpdate ::
  "elemental \<Rightarrow> 'r isOperationAllowed \<Rightarrow> bcontext \<Rightarrow> 'r config \<Rightarrow> 'w dispatcher
     \<Rightarrow> race \<Rightarrow> store \<Rightarrow> 'w \<Rightarrow> 'w handled" where
  "handleUpdate lib IsOperationAllowed c cfg dispatchUpdateOperation how st w =
     (let response = NewResponse (request c) in
      case modelManagers cfg (Version (request c)) of
        None \<Rightarrow> (Panicked ''invalid memory address or nil pointer dereference'', c, st, w)
      | Some relationships \<Rightarrow>
          if \<not> IsOperationAllowed relationships (Identity (request c))
                 (ParentIdentity (request c)) OperationUpdate
          then errorResult lib c response
                 (notAllowed (''Update operation not allowed on '' @ Name (Identity (request c))))
                 st w
          else runDispatcher lib c response dispatchUpdateOperation
                 (panicRecoveryDisabled cfg) (traceCleaner cfg) how st w)"

definition handleDelete ::
  "elemental \<Rightarrow> 'r isOperationAllowed \<Rightarrow> bcontext \<Rightarrow> 'r config \<Rightarrow> 'w dispatcher
     \<Rightarrow> race \<Rightarrow> store \<Rightarrow> 'w \<Rightarrow> 'w handled" where
  "handleDelete lib IsOperationAllowed c cfg dispatchDeleteOperation how st w =
     (let response = NewResponse (request c) in
      case modelManagers cfg (Version (request c)) of
        None \<Rightarrow> (Panicked ''invalid memory address or nil pointer dereference'', c, st, w)
      | Some relationships \<Rightarrow>
          if \<not> IsOperationAllowed relationships (Identity (request c))
                 (ParentIdentity (request c)) OperationDelete
          then errorResult lib c response
                 (notAllowed (''Delete operation not allowed on '' @ Name (Identity (request c))))
                 st w
          else runDispatcher lib c response dispatchDeleteOperation
                 (panicRecoveryDisabled cfg) (traceCleaner cfg) how st w)"

definition handleInfo ::
  "elemental \<Rightarrow> 'r isOperationAllowed \<Rightarrow> bcontext \<Rightarrow> 'r config \<Rightarrow> 'w dispatcher
     \<Rightarrow> race \<Rightarrow> store \<Rightarrow> 'w \<Rightarrow> 'w handled" where
  "handleInfo lib IsOperationAllowed c cfg dispatchInfoOperation how st w =
     (let response = NewResponse (request c) in
      case modelManagers cfg (Version (request c)) of
        None \<Rightarrow> (Panicked ''invalid memory address or nil pointer dereference'', c, st, w)
      | Some relationships \<Rightarrow>
          if \<not> IsOperationAllowed relationships (Identity (request c))
                 (ParentIdentity (request c)) OperationInfo
          then errorResult lib c response
                 (notAllowed (''Info operation not allowed on '' @ Category (Identity (request c))))
                 st w
          else runDispatcher lib c response dispatchInfoOperation
                 (panicRecoveryDisabled cfg) (traceCleaner cfg) how st w)"

definition handlePatch ::
  "elemental \<Rightarrow> 'r isOperationAllowed \<Rightarrow> bcontext \<Rightarrow> 'r config \<Rightarrow> 'w dispatcher
     \<Rightarrow> race \<Rightarrow> store \<Rightarrow> 'w \<Rightarrow> 'w handled" where
  "handlePatch lib IsOperationAllowed c cfg dispatchPatchOperation how st w =
     (let response = NewResponse (request c) in
      case modelManagers cfg (Version (request c)) of
        None \<Rightarrow> (Panicked ''invalid memory address or nil pointer dereference'', c, st, w)
      | Some relationships \<Rightarrow>
          if \<not> IsOperationAllowed relationships (Identity (request c))
                 (ParentIdentity (request c)) OperationPatch
          then errorResult lib c response
                 (notAllowed (''Patch operation not allowed on '' @ Category (Identity (request c))))
                 st w
          else runDispatcher lib c response dispatchPatchOperation
                 (panicRecoveryDisabled cfg) (traceCleaner cfg) how st w)"

section \<open>WebSocket API session: the seven handlers\<close>

text \<open>
  The session handlers use the model library's older interface: one predicate per
  operation, on the registry found under the request's version in the session's
  configuration (a Go map lookup: nil, here \<open>None\<close>, for a version that has none).
  RetrieveMany, Create, Info and Patch substitute the root identity for an empty parent;
  Retrieve, Update and Delete ask the registry about the identity alone and refuse any
  non-empty parent.
\<close>

record 'r relationshipsAPI =
  IsRetrieveManyAllowed :: "'r option \<Rightarrow> Identity \<Rightarrow> Identity \<Rightarrow> bool"
  IsRetrieveAllowed :: "'r option \<Rightarrow> Identity \<Rightarrow> bool"
  IsCreateAllowed :: "'r option \<Rightarrow> Identity \<Rightarrow> Identity \<Rightarrow> bool"
  IsUpdateAllowed :: "'r option \<Rightarrow> Identity \<Rightarrow> bool"
  IsDeleteAllowed :: "'r option \<Rightarrow> Identity \<Rightarrow> bool"
  IsInfoAllowed :: "'r option \<Rightarrow> Identity \<Rightarrow> Identity \<Rightarrow> bool"
  IsPatchAllowed :: "'r option \<Rightarrow> Identity \<Rightarrow> Identity \<Rightarrow> bool"

record 'r wsConfig =
  RelationshipsRegistry :: "int \<rightharpoonup> 'r"

definition RootIdentity :: Identity where
  "RootIdentity = \<lparr>Name = ''root'', Category = ''root''\<rparr>"

definition IsEmpty :: "Identity \<Rightarrow> bool" where
  "IsEmpty i = (Name i = [] \<and> Category i = [])"

text \<open>
  Modelled from the spec: \<open>writeWebSocketError\<close> and the session's two-argument
  \<open>handleRecoveredPanic\<close>, which are not among the source files. The spec (6) has a
  framed error on the socket replace a 4xx/5xx HTTP response, and (4.4) a panic of a
  request write a framed 500. The socket is the list of frames written on it; an error
  frame is the response, with the error's code as status, and the errors it carries.
\<close>

datatype frame = Frame Response "elementalError list"

type_synonym socket = "frame list"

definition writeWebSocketError :: "socket \<Rightarrow> Response \<Rightarrow> goerror \<Rightarrow> socket" where
  "writeWebSocketError sock response err =
     (let outError =
        (case err of
           ElementalError e \<Rightarrow> [e]
         | ElementalErrors es \<Rightarrow> es
         | ContextCanceled \<Rightarrow>
             [NewError ''Internal Server Error'' (errorMessage err) ''bahamut''
                StatusInternalServerError]
         | ContextDeadlineExceeded \<Rightarrow>
             [NewError ''Internal Server Error'' (errorMessage err) ''bahamut''
                StatusInternalServerError]
         | ErrorString m \<Rightarrow>
             [NewError ''Internal Server Error'' m ''bahamut'' StatusInternalServerError])
      in sock @ [Frame (response\<lparr>StatusCode := ErrorsCode outError\<rparr>) outError])"

definition sessionRecoveredPanic :: "panicValue \<Rightarrow> goerror" where
  "sessionRecoveredPanic v =
     ElementalError (NewError ''Internal Server Error'' (formatPanic v) ''bahamut''
                       StatusInternalServerError)"

text \<open>
  \<open>runWSDispatcher\<close> is not among the source files either; the handlers take it as a
  parameter: given the context, the socket, the response and the dispatcher, it
  yields the socket and the world after the run, and the panic it died of, if any.
  The handler's deferred \<open>handleEventualPanic\<close> turns such a panic into an error frame.
\<close>

type_synonym 'w runWS =
  "bcontext \<Rightarrow> socket \<Rightarrow> Response \<Rightarrow> 'w dispatcher \<Rightarrow> 'w \<Rightarrow> panicValue option \<times> socket \<times> 'w"

definition NewContextWithRequest :: "Request \<Rightarrow> bcontext" where
  "NewContextWithRequest req =
     \<lparr>request = req, statusCode = 0, count = 0, messages = [], outputData = None,
      redirect = [], ctx = \<lparr>ctxSpan = None\<rparr>\<rparr>"

definition wsDispatch ::
  "'w runWS \<Rightarrow> Request \<Rightarrow> socket \<Rightarrow> Response \<Rightarrow> 'w dispatcher \<Rightarrow> 'w \<Rightarrow> socket \<times> 'w" where
  "wsDispatch runWSDispatcher req sock response d w =
     (case runWSDispatcher (NewContextWithRequest req) sock response d w of
        (None, sock', w') \<Rightarrow> (sock', w')
      | (Some v, sock', w') \<Rightarrow>
          (writeWebSocketError sock' response (sessionRecoveredPanic v), w'))"

definition wsAPISession_handleRetrieveMany ::
  "'r relationshipsAPI \<Rightarrow> 'w runWS \<Rightarrow> 'r wsConfig \<Rightarrow> Request \<Rightarrow> 'w dispatcher
     \<Rightarrow> socket \<Rightarrow> 'w \<Rightarrow> socket \<times> 'w" where
  "wsAPISession_handleRetrieveMany api runWSDispatcher config req dispatchRetrieveManyOperation sock w =
     (let response = NewResponse req;
          parentIdentity = (if IsEmpty (ParentIdentity req) then RootIdentity
                            else ParentIdentity req)
      in if \<not> IsRetrieveManyAllowed api (RelationshipsRegistry config (Version req)) (Identity req)
                 parentIdentity
         then (writeWebSocketError sock response
                 (notAllowed (''RetrieveMany operation not allowed on '' @ Category (Identity req))), w)
         else wsDispatch runWSDispatcher req sock response dispatchRetrieveManyOperation w)"

definition wsAPISession_handleRetrieve ::
  "'r relationshipsAPI \<Rightarrow> 'w runWS \<Rightarrow> 'r wsConfig \<Rightarrow> Request \<Rightarrow> 'w dispatcher
     \<Rightarrow> socket \<Rightarrow> 'w \<Rightarrow> socket \<times> 'w" where
  "wsAPISession_handleRetrieve api runWSDispatcher config req dispatchRetrieveOperation sock w =
     (let response = NewResponse req
      in if \<not> IsRetrieveAllowed api (RelationshipsRegistry config (Version req)) (Identity req)
              \<or> \<not> IsEmpty (ParentIdentity req)
         then (writeWebSocketError sock response
                 (notAllowed (''Retrieve operation not allowed on '' @ Name (Identity req))), w)
         else wsDispatch runWSDispatcher req sock response dispatchRetrieveOperation w)"

definition wsAPISession_handleCreate ::
  "'r relationshipsAPI \<Rightarrow> 'w runWS \<Rightarrow> 'r wsConfig \<Rightarrow> Request \<Rightarrow> 'w dispatcher
     \<Rightarrow> socket \<Rightarrow> 'w \<Rightarrow> socket \<times> 'w" where
  "wsAPISession_handleCreate api runWSDispatcher config req dispatchCreateOperation sock w =
     (let response = NewResponse req;
          parentIdentity = (if IsEmpty (ParentIdentity req) then RootIdentity
                            else ParentIdentity req)
      in if \<not> IsCreateAllowed api (RelationshipsRegistry config (Version req)) (Identity req)
                 parentIdentity
         then (writeWebSocketError sock response
                 (notAllowed (''Create operation not allowed on '' @ Name (Identity req))), w)
         else wsDispatch runWSDispatcher req sock response dispatchCreateOperation w)"

definition wsAPISession_handleUpdate ::
  "'r relationshipsAPI \<Rightarrow> 'w runWS \<Rightarrow> 'r wsConfig \<Rightarrow> Request \<Rightarrow> 'w dispatcher
     \<Rightarrow> socket \<Rightarrow> 'w \<Rightarrow> socket \<times> 'w" where
  "wsAPISession_handleUpdate api runWSDispatcher config req dispatchUpdateOperation sock w =
     (let response = NewResponse req
      in if \<not> IsUpdateAllowed api (RelationshipsRegistry config (Version req)) (Identity req)
              \<or> \<not> IsEmpty (ParentIdentity req)
         then (writeWebSocketError sock response
                 (notAllowed (''Update operation not allowed on '' @ Name (Identity req))), w)
         else wsDispatch runWSDispatcher req sock response dispatchUpdateOperation w)"

definition wsAPISession_handleDelete ::
  "'r relationshipsAPI \<Rightarrow> 'w runWS \<Rightarrow> 'r wsConfig \<Rightarrow> Request \<Rightarrow> 'w dispatcher
     \<Rightarrow> socket \<Rightarrow> 'w \<Rightarrow> socket \<times> 'w" where
  "wsAPISession_handleDelete api runWSDispatcher config req dispatchDeleteOperation sock w =
     (let response = NewResponse req
      in if \<not> IsDeleteAllowed api (RelationshipsRegistry config (Version req)) (Identity req)
              \<or> \<not> IsEmpty (ParentIdentity req)
         then (writeWebSocketError sock response
                 (notAllowed (''Delete operation not allowed on '' @ Name (Identity req))), w)
         else wsDispatch runWSDispatcher req sock response dispatchDeleteOperation w)"

definition wsAPISession_handleInfo ::
  "'r relationshipsAPI \<Rightarrow> 'w runWS \<Rightarrow> 'r wsConfig \<Rightarrow> Request \<Rightarrow> 'w dispatcher
     \<Rightarrow> socket \<Rightarrow> 'w \<Rightarrow> socket \<times> 'w" where
  "wsAPISession_handleInfo api runWSDispatcher config req dispatchInfoOperation sock w =
     (let response = NewResponse req;
          parentIdentity = (if IsEmpty (ParentIdentity req) then RootIdentity
                            else ParentIdentity req)
      in if \<not> IsInfoAllowed api (RelationshipsRegistry config (Version req)) (Identity req)
                 parentIdentity
         then (writeWebSocketError sock response
                 (notAllowed (''Info operation not allowed on '' @ Category (Identity req))), w)
         else wsDispatch runWSDispatcher req sock response dispatchInfoOperation w)"

definition wsAPISession_handlePatch ::
  "'r relationshipsAPI \<Rightarrow> 'w runWS \<Rightarrow> 'r wsConfig \<Rightarrow> Request \<Rightarrow> 'w dispatcher
     \<Rightarrow> socket \<Rightarrow> 'w \<Rightarrow> socket \<times> 'w" where
  "wsAPISession_handlePatch api runWSDispatcher config req dispatchPatchOperation sock w =
     (let response = NewResponse req;
          parentIdentity = (if IsEmpty (ParentIdentity req) then RootIdentity
                            else ParentIdentity req)
      in if \<not> IsPatchAllowed api (RelationshipsRegistry config (Version req)) (Identity req)
                 parentIdentity
         then (writeWebSocketError sock response
                 (notAllowed (''Patch operation not allowed on '' @ Name (Identity req))), w)
         else wsDispatch runWSDispatcher req sock response dispatchPatchOperation w)"

section \<open>Pub/Sub adapter: NATS\<close>

text \<open>
  The NATS client library and the bus behind it are outside the repository. The bus
  is the list of messages published on it, each a subject and its bytes; the library's
  two calls are parameters: \<open>natsPublish conn subject bytes\<close> is
  \<open>conn.Publish(subject, bytes)\<close> and \<open>natsRequest\<close> is \<open>conn.RequestWithContext\<close>, each
  giving its result and the bus after the call. So is the model library's msgpack
  encoder, \<open>encodeMSGPACK\<close>. A publish option is a function that changes the publish
  configuration. Of \<open>natsPubSub\<close> the durations and the TLS configuration are left out;
  \<open>client\<close> is nil (\<open>None\<close>) until \<open>Connect\<close> has succeeded. The publication is the value
  the pointer refers to.
\<close>

record Publication =
  Topic :: string
  Payload :: string

record natsMsg =
  msgData :: string
  msgReply :: string

type_synonym bus = "(string \<times> string) list"

record 'c nats =
  natsPublish :: "'c \<Rightarrow> string \<Rightarrow> string \<Rightarrow> bus \<Rightarrow> goerror option \<times> bus"
  natsRequest :: "'c \<Rightarrow> string \<Rightarrow> string \<Rightarrow> bus \<Rightarrow> (goerror + natsMsg) \<times> bus"

record 'c natsPubSub =
  natsURL :: string
  client :: "'c option"
  retryNumber :: int
  clientID :: string
  clusterID :: string
  password :: string
  username :: string

record natsPublishConfig =
  replyValidator :: "(natsMsg \<Rightarrow> goerror option) option"

type_synonym PubSubOptPublish = "natsPublishConfig \<Rightarrow> natsPublishConfig"

text \<open>\<open>NewNATSPubSubClient\<close>; \<open>uuid\<close> is the fresh identifier it draws.\<close>

definition NewNATSPubSubClient ::
  "string \<Rightarrow> string \<Rightarrow> ('c natsPubSub \<Rightarrow> 'c natsPubSub) list \<Rightarrow> 'c natsPubSub" where
  "NewNATSPubSubClient url uuid options =
     fold (\<lambda>opt n. opt n) options
       \<lparr>natsURL = url, client = None, retryNumber = 5, clientID = uuid,
        clusterID = ''test-cluster'', password = [], username = []\<rparr>"

definition Publish ::
  "'c nats \<Rightarrow> (Publication \<Rightarrow> string + string) \<Rightarrow> 'c natsPubSub \<Rightarrow> Publication
     \<Rightarrow> PubSubOptPublish list \<Rightarrow> bus \<Rightarrow> goerror option \<times> bus" where
  "Publish api encodeMSGPACK p publication opts b =
     (let config = fold (\<lambda>opt cfg. opt cfg) opts \<lparr>replyValidator = None\<rparr> in
      case client p of
        None \<Rightarrow> (Some (ErrorString ''not connected to nats. messages dropped''), b)
      | Some conn \<Rightarrow>
          (case encodeMSGPACK publication of
             Inl m \<Rightarrow>
               (Some (ErrorString (''unable to encode publication. message dropped: '' @ m)), b)
           | Inr payload \<Rightarrow>
               (case replyValidator config of
                  None \<Rightarrow> natsPublish api conn (Topic publication) payload b
                | Some validate \<Rightarrow>
                    (case natsRequest api conn (Topic publication) payload b of
                       (Inl err, b') \<Rightarrow> (Some err, b')
                     | (Inr msg, b') \<Rightarrow> (validate msg, b')))))"

section \<open>Push server: the session registry\<close>

text \<open>
  Modelled from the spec: the push server's registration of sessions (4.3), whose
  source is not among the files; only its tests are. The control loop owns the
  sessions, keyed by session identifier, and handles one message at a time.
  "\<open>register s\<close>: add to set; notify optional SessionHandler"; "\<open>unregister s\<close>: remove
  from set if present; notify SessionHandler", and "must be idempotent (second
  unregister is a no-op)". \<open>TestSession_registerSession\<close> finds the handler counting
  one session after the same session was registered twice, so registering a session
  that is present does nothing. The handler is known by the calls it received;
  the test handler's count is its starts less its stops.
\<close>

record PushSession =
  sessionID :: string

datatype handlerCall = OnPushSessionStart string | OnPushSessionStop string

record pushServer =
  sessions :: "string \<rightharpoonup> PushSession"
  handlerCalls :: "handlerCall list"

definition newPushServer :: pushServer where
  "newPushServer = \<lparr>sessions = Map.empty, handlerCalls = []\<rparr>"

definition registerSession :: "PushSession \<Rightarrow> pushServer \<Rightarrow> pushServer" where
  "registerSession s srv =
     (case sessions srv (sessionID s) of
        Some _ \<Rightarrow> srv
      | None \<Rightarrow>
          srv\<lparr>sessions := (sessions srv)(sessionID s \<mapsto> s),
              handlerCalls := handlerCalls srv @ [OnPushSessionStart (sessionID s)]\<rparr>)"

definition unregisterSession :: "PushSession \<Rightarrow> pushServer \<Rightarrow> pushServer" where
  "unregisterSession s srv =
     (case sessions srv (sessionID s) of
        None \<Rightarrow> srv
      | Some _ \<Rightarrow>
          srv\<lparr>sessions := (sessions srv)(sessionID s := None),
              handlerCalls := handlerCalls srv @ [OnPushSessionStop (sessionID s)]\<rparr>)"

fun startsLessStops :: "handlerCall list \<Rightarrow> int" where
  "startsLessStops [] = 0"
| "startsLessStops (OnPushSessionStart _ # calls) = startsLessStops calls + 1"
| "startsLessStops (OnPushSessionStop _ # calls) = startsLessStops calls - 1"

definition sessionCount :: "pushServer \<Rightarrow> int" where
  "sessionCount srv = startsLessStops (handlerCalls srv)"

section \<open>A JSON instance of the model library\<close>

text \<open>
  Modelled from the spec: the model library's JSON encoding of identifiables and of
  errors, which is not among the source files. It is written to give the bodies the
  spec states (8.3, S1, S2) and the tests of the handlers expect: objects and lists
  without spaces, attributes in the object's order, strings between quotes with quote
  and backslash escaped, an error as its code, data (null), description, subject,
  title and trace. A value no encoder accepts makes the encoding fail. No attribute
  of the test model is secret.
\<close>

definition quoteJSON :: "string \<Rightarrow> string" where
  "quoteJSON s =
     CHR 0x22 # concat (map (\<lambda>ch. if ch = CHR 0x22 \<or> ch = CHR 0x5C then [CHR 0x5C, ch] else [ch]) s)
       @ [CHR 0x22]"

fun renderValue :: "attrValue \<Rightarrow> string option" where
  "renderValue (AString s) = Some (quoteJSON s)"
| "renderValue (ABool b) = Some (if b then ''true'' else ''false'')"
| "renderValue ANull = Some ''null''"
| "renderValue AUnsupported = None"

definition renderObject :: "identifiable \<Rightarrow> string option" where
  "renderObject obj =
     map_option (\<lambda>members. ''{'' @ joinWith '','' members @ ''}'')
       (those (map (\<lambda>(k, v). map_option (\<lambda>t. quoteJSON k @ '':'' @ t) (renderValue v)) obj))"

definition renderList :: "identifiable list \<Rightarrow> string option" where
  "renderList objs =
     map_option (\<lambda>items. ''['' @ joinWith '','' items @ '']'') (those (map renderObject objs))"

definition renderError :: "elementalError \<Rightarrow> string" where
  "renderError e =
     ''{'' @ quoteJSON ''code'' @ '':'' @ showInt (Code e)
     @ '','' @ quoteJSON ''data'' @ '':null''
     @ '','' @ quoteJSON ''description'' @ '':'' @ quoteJSON (Description e)
     @ '','' @ quoteJSON ''subject'' @ '':'' @ quoteJSON (Subject e)
     @ '','' @ quoteJSON ''title'' @ '':'' @ quoteJSON (Title e)
     @ '','' @ quoteJSON ''trace'' @ '':'' @ quoteJSON (Trace e) @ ''}''"

definition jsonEncode :: "Request \<Rightarrow> encodable \<Rightarrow> string + string" where
  "jsonEncode r v =
     (let text =
        (case v of
           OutputValue (PlainIdentifiable obj) \<Rightarrow> renderObject obj
         | OutputValue (SparseIdentifiable obj) \<Rightarrow> renderObject obj
         | OutputValue (PlainIdentifiables objs) \<Rightarrow> renderList objs
         | OutputValue (SparseIdentifiables objs) \<Rightarrow> renderList objs
         | OutputValue (OtherData x) \<Rightarrow> Some x
         | ErrorsValue es \<Rightarrow> Some (''['' @ joinWith '','' (map renderError es) @ '']''))
      in case text of None \<Rightarrow> Inl ''json: unsupported type'' | Some t \<Rightarrow> Inr t)"

definition jsonLib :: elemental where
  "jsonLib = \<lparr>Encode = jsonEncode, secretAttribute = (\<lambda>k. False)\<rparr>"

section \<open>Notions of the statements\<close>

text \<open>
  A cleaner keeps its input when the bytes of the slice it was handed read the same
  after the call as before.
\<close>

definition keepsInput :: "TraceCleaner \<Rightarrow> bool" where
  "keepsInput clean =
     (\<forall>ident a st. a < length st \<longrightarrow>
        bytesOf (snd (clean ident (Slice a) st)) (Slice a) = bytesOf st (Slice a))"


text \<open>
  The canonical 405 answer of the spec's relationship gate (8.1), for a context \<open>c\<close> and
  a message: the fresh response for the context's request with status 405 and, as
  body, the encoding of the one error "Not allowed" with that message; context and
  world are as they were.
\<close>

definition canonical405 :: "elemental \<Rightarrow> bcontext \<Rightarrow> string \<Rightarrow> store \<Rightarrow> 'w \<Rightarrow> 'w handled" where
  "canonical405 lib c description st w =
     (case Encode lib (request c)
             (ErrorsValue [\<lparr>Code = 405, Description = description, Subject = ''bahamut'',
                            Title = ''Not allowed'',
                            Trace = extractSpanID (ctxSpan (ctx c))\<rparr>]) of
        Inl m \<Rightarrow> (Panicked (''unable to encode error: '' @ m), c, st, w)
      | Inr bytes \<Rightarrow>
          (Returned (Some ((NewResponse (request c))
                             \<lparr>StatusCode := 405, Data := Slice (length st)\<rparr>)),
           c, st @ [bytes], w))"

section \<open>Fixtures of the tests\<close>

definition UserIdentity :: Identity where
  "UserIdentity = \<lparr>Name = ''user'', Category = ''users''\<rparr>"




text \<open>
  The test model's lists, with the attributes the tests set, and the contexts of the
  sparse-projection tests: the request carries \<open>X-Fields\<close> values \<open>name\<close> and \<open>ID\<close>.
\<close>

definition testLists :: "identifiable list" where
  "testLists =
     [[(''ID'', AString ''xxx''), (''description'', AString '' the description''),
       (''name'', AString ''the name'')],
      [(''ID'', AString ''xxx2''), (''description'', AString '' the description2''),
       (''name'', AString ''the name2'')]]"

definition fieldsRequest :: Request where
  "fieldsRequest = NewRequest\<lparr>Headers := Some [''X-Fields'' \<mapsto> [''name'', ''ID'']]\<rparr>"




text \<open>
  The same request with a single list as output and a span on the context, and two
  trace cleaners: the test's, which returns fresh bytes, and one that overwrites the
  bytes it is handed with stars and returns them, as
  \<^verbatim>\<open>func(id elemental.Identity, data []byte) []byte { for i := range data { data[i] = '*' }; return data }\<close>
  does.
\<close>

definition tracedContext :: bcontext where
  "tracedContext =
     (newContext fieldsRequest)
       \<lparr>outputData := Some (PlainIdentifiable (hd testLists)),
        ctx := \<lparr>ctxSpan = Some \<lparr>traceID = ''t1'', loggedFields = [], tags = []\<rparr>\<rparr>\<rparr>"

definition modifiedCleaner :: TraceCleaner where
  "modifiedCleaner ident d st = alloc st ''modified''"

definition starCleaner :: TraceCleaner where
  "starCleaner ident d st = (d, writeBytes st d (map (\<lambda>b. CHR ''*'') (bytesOf st d)))"

text \<open>
  The dispatchers of \<open>TestHandlers_runDispatcher\<close> and \<open>TestHandlers_handleEventualPanic\<close>:
  the world is the tests' call counter.
\<close>

definition countingDispatcher :: "nat dispatcher" where
  "countingDispatcher w c = (Returns None, c, Suc w)"



definition panickingDispatcher :: "nat dispatcher" where
  "panickingDispatcher w c = (PanicsWith (PanicString ''Noooooooooooooooooo''), c, Suc w)"

text \<open>
  The relationships of the test model, as far as the handler tests use them: a user
  may be reached under the root with every operation and under nothing else. The
  registry lists the allowed (identity, parent, operation) triples.
\<close>

type_synonym relationships = "(string \<times> string \<times> Operation) list"

definition testRelationships :: relationships where
  "testRelationships =
     map (\<lambda>op. (''user'', ''root'', op))
       [OperationRetrieveMany, OperationRetrieve, OperationCreate, OperationUpdate,
        OperationDelete, OperationInfo, OperationPatch]"

definition testIsOperationAllowed :: "relationships isOperationAllowed" where
  "testIsOperationAllowed reg i p op = ((Name i, Name p, op) \<in> set reg)"

definition testConfig :: "relationships config" where
  "testConfig =
     \<lparr>modelManagers = [0 \<mapsto> testRelationships, 1 \<mapsto> testRelationships],
      panicRecoveryDisabled = False, traceCleaner = None\<rparr>"

definition allowedUnder ::
  "Operation \<Rightarrow> relationships option \<Rightarrow> Identity \<Rightarrow> Identity \<Rightarrow> bool" where
  "allowedUnder op reg i p =
     (case reg of None \<Rightarrow> False | Some r \<Rightarrow> (Name i, Name p, op) \<in> set r)"

definition testRelationshipsAPI :: "relationships relationshipsAPI" where
  "testRelationshipsAPI =
     \<lparr>IsRetrieveManyAllowed = allowedUnder OperationRetrieveMany,
      IsRetrieveAllowed = (\<lambda>reg i. allowedUnder OperationRetrieve reg i RootIdentity),
      IsCreateAllowed = allowedUnder OperationCreate,
      IsUpdateAllowed = (\<lambda>reg i. allowedUnder OperationUpdate reg i RootIdentity),
      IsDeleteAllowed = (\<lambda>reg i. allowedUnder OperationDelete reg i RootIdentity),
      IsInfoAllowed = allowedUnder OperationInfo,
      IsPatchAllowed = allowedUnder OperationPatch\<rparr>"

definition testWSConfig :: "relationships wsConfig" where
  "testWSConfig = \<lparr>RelationshipsRegistry = [0 \<mapsto> testRelationships]\<rparr>"

text \<open>
  A stand-in for \<open>runWSDispatcher\<close>: it runs the dispatcher and writes the response.
\<close>

definition directRun :: "nat runWS" where
  "directRun c sock response d w =
     (case d w c of
        (Returns err, c', w') \<Rightarrow> (None, sock @ [Frame response []], w')
      | (PanicsWith v, c', w') \<Rightarrow> (Some v, sock, w'))"

text \<open>The request of the "invalid api call" of \<open>TestHandlers_handlePatch\<close>.\<close>

definition patchUserUnderUser :: Request where
  "patchUserUnderUser =
     NewRequest\<lparr>Operation := OperationPatch, Identity := UserIdentity,
                ParentIdentity := UserIdentity\<rparr>"

text \<open>A NATS library that publishes on the bus, two encoders, a publication, a session.\<close>

definition loopbackNats :: "unit nats" where
  "loopbackNats =
     \<lparr>natsPublish = (\<lambda>conn subject payload b. (None, b @ [(subject, payload)])),
      natsRequest = (\<lambda>conn subject payload b.
         (Inr \<lparr>msgData = ''ack'', msgReply = []\<rparr>, b @ [(subject, payload)]))\<rparr>"

definition plainEncode :: "Publication \<Rightarrow> string + string" where
  "plainEncode publication = Inr (Topic publication @ '':'' @ Payload publication)"

definition rejectingEncode :: "Publication \<Rightarrow> string + string" where
  "rejectingEncode publication = Inl ''unsupported value''"

definition helloPublication :: Publication where
  "helloPublication = \<lparr>Topic = ''topic'', Payload = ''hello''\<rparr>"

definition firstSession :: PushSession where
  "firstSession = \<lparr>sessionID = ''s1''\<rparr>"

section \<open>Theorems\<close>

lemmas shaping_defs =
  makeResponse_def deriveStatus_def copyCount_def copyMessages_def projectOutput_def
  requestedFields_def traceData_def logSpan_def alloc_def sliceAll_def bytesOf_def
  resetSecrets_def ToSparse_def

lemmas fixture_defs =
  newContext_def NewRequest_def NewResponse_def emptyIdentity_def
  OperationRetrieveMany_def OperationRetrieve_def OperationCreate_def OperationUpdate_def
  OperationDelete_def OperationInfo_def OperationPatch_def
  StatusOK_def StatusCreated_def StatusNoContent_def StatusMethodNotAllowed_def
  StatusRequestTimeout_def StatusInternalServerError_def

lemmas json_defs =
  jsonLib_def jsonEncode_def renderObject_def renderList_def renderError_def quoteJSON_def
  showInt_def showNat.simps

lemmas runner_defs =
  runDispatcher_def errorResult_def dispatcherTask_def handleEventualPanic_def
  handleRecoveredPanic_def makeErrorResponse_def processError_def extractSpanID_def
  ErrorsCode_def NewError_def formatPanic_def errorMessage_def elementalErrorText_def

subsection \<open>Processor registry\<close>

lemma RegisterProcessor_error_iff:
  "fst (RegisterProcessor b p i) \<noteq> None \<longleftrightarrow> processors b (Name i) \<noteq> None"
  by (simp add: RegisterProcessor_def split: option.split)

lemma RegisterProcessor_error_frame:
  "fst (RegisterProcessor b p i) \<noteq> None \<Longrightarrow> snd (RegisterProcessor b p i) = b"
  by (simp add: RegisterProcessor_def split: option.splits)

lemma RegisterProcessor_success_lookup:
  "fst (RegisterProcessor b p i) = None \<Longrightarrow>
     ProcessorForIdentity (snd (RegisterProcessor b p i)) i = Inr p"
  by (simp add: RegisterProcessor_def ProcessorForIdentity_def split: option.splits)

text \<open>
  C9. \<open>RegisterProcessor\<close> returns an error exactly when a processor is already
  registered under the identity's name. When it returns an error the registry is
  unchanged; when it returns none, \<open>ProcessorForIdentity\<close> on the new registry yields
  the processor just registered, without error.
\<close>

theorem RegisterProcessor_spec:
  "(fst (RegisterProcessor b p i) \<noteq> None \<longleftrightarrow> processors b (Name i) \<noteq> None)
   \<and> (fst (RegisterProcessor b p i) \<noteq> None \<longrightarrow> snd (RegisterProcessor b p i) = b)
   \<and> (fst (RegisterProcessor b p i) = None \<longrightarrow>
        ProcessorForIdentity (snd (RegisterProcessor b p i)) i = Inr p)"
  by (intro conjI impI RegisterProcessor_error_iff RegisterProcessor_error_frame
        RegisterProcessor_success_lookup)

theorem RegisterProcessor_spec_witness:
  "fst (RegisterProcessor (NewServer :: nat server) 7 \<lparr>Name = ''user'', Category = ''users''\<rparr>) = None
   \<and> ProcessorForIdentity
        (snd (RegisterProcessor (NewServer :: nat server) 7 \<lparr>Name = ''user'', Category = ''users''\<rparr>))
        \<lparr>Name = ''user'', Category = ''users''\<rparr> = Inr 7
   \<and> fst (RegisterProcessor \<lparr>processors = [''user'' \<mapsto> 7]\<rparr> (8 :: nat)
          \<lparr>Name = ''user'', Category = ''users''\<rparr>) \<noteq> None
   \<and> snd (RegisterProcessor \<lparr>processors = [''user'' \<mapsto> 7]\<rparr> (8 :: nat)
          \<lparr>Name = ''user'', Category = ''users''\<rparr>) = \<lparr>processors = [''user'' \<mapsto> 7]\<rparr>"
proof -
  let ?i = "\<lparr>Name = ''user'', Category = ''users''\<rparr>"
  have free: "processors (NewServer :: nat server) (Name ?i) = None"
    by (simp add: NewServer_def)
  have taken: "processors \<lparr>processors = [''user'' \<mapsto> (7::nat)]\<rparr> (Name ?i) \<noteq> None"
    by simp
  from free RegisterProcessor_spec [of "NewServer :: nat server" 7 ?i]
  have ok: "fst (RegisterProcessor (NewServer :: nat server) 7 ?i) = None
      \<and> ProcessorForIdentity (snd (RegisterProcessor (NewServer :: nat server) 7 ?i)) ?i = Inr 7"
    by blast
  from taken RegisterProcessor_spec [of "\<lparr>processors = [''user'' \<mapsto> (7::nat)]\<rparr>" 8 ?i]
  have dup: "fst (RegisterProcessor \<lparr>processors = [''user'' \<mapsto> (7::nat)]\<rparr> 8 ?i) \<noteq> None
      \<and> snd (RegisterProcessor \<lparr>processors = [''user'' \<mapsto> (7::nat)]\<rparr> 8 ?i)
          = \<lparr>processors = [''user'' \<mapsto> 7]\<rparr>"
    by blast
  from ok dup show ?thesis by blast
qed

subsection \<open>Response shaping: redirect\<close>

text \<open>
  C6. When the context's redirect is not empty, \<open>makeResponse\<close> returns the response
  it was given with \<open>Redirect\<close> set to it and every other field as it was. The
  context is unchanged (no field is logged on its span, its output data is neither
  blanked nor projected) and so is the store (nothing is encoded); the result depends
  neither on the encoder nor on the trace cleaner.
\<close>

theorem makeResponse_redirect:
  "redirect c \<noteq> [] \<Longrightarrow>
     makeResponse lib c response cleaner st =
       (Returned (Some (response\<lparr>Redirect := redirect c\<rparr>)), c, st)"
  by (simp add: makeResponse_def)

theorem makeResponse_redirect_witness:
  "redirect ((newContext NewRequest)\<lparr>redirect := ''http://ici''\<rparr>) \<noteq> []
   \<and> makeResponse jsonLib ((newContext NewRequest)\<lparr>redirect := ''http://ici''\<rparr>)
         (NewResponse NewRequest) None []
       = (Returned (Some ((NewResponse NewRequest)\<lparr>Redirect := ''http://ici''\<rparr>)),
          (newContext NewRequest)\<lparr>redirect := ''http://ici''\<rparr>, [])"
proof -
  have r: "redirect ((newContext NewRequest)\<lparr>redirect := ''http://ici''\<rparr>) \<noteq> []"
    by simp
  from r makeResponse_redirect [OF r, of jsonLib "NewResponse NewRequest" None "[]"]
  show ?thesis by simp
qed

subsection \<open>Response shaping: status code\<close>




lemma Request_shaped:
  "Request (fst (copyMessages c (copyCount c (deriveStatus c response, [])))) = Request response"
  by (simp add: copyMessages_def copyCount_def deriveStatus_def Let_def)






subsection \<open>Response shaping: sparse projection\<close>





lemma requestedFields_absent:
  "Headers req = None \<or> (\<exists>h. Headers req = Some h \<and> h ''X-Fields'' = None)
     \<Longrightarrow> requestedFields req = []"
  by (auto simp add: requestedFields_def)



text \<open>
  Output data that is already sparse, or is no identifiable at all, is not projected,
  whatever the header lists: the type switch has a case for the plain identifiable and
  one for the plain list, and no other.
\<close>

lemma projectOutput_sparse:
  "projectOutput lib req (SparseIdentifiable obj) = SparseIdentifiable (resetSecrets lib obj)"
  "projectOutput lib req (SparseIdentifiables objs)
     = SparseIdentifiables (map (resetSecrets lib) objs)"
  "projectOutput lib req (OtherData x) = OtherData x"
  by (simp_all add: projectOutput_def Let_def)




subsection \<open>Response shaping: the trace cleaner\<close>

lemma keepsInput_modifiedCleaner: "keepsInput modifiedCleaner"
  by (simp add: keepsInput_def modifiedCleaner_def alloc_def bytesOf_def nth_append)

lemma makeResponse_trace:
  assumes "redirect c = []" and "outputData c = Some od"
    and "Encode lib (Request response) (OutputValue (projectOutput lib (request c) od)) = Inr bytes"
    and "ctxSpan (ctx c) = Some sp"
    and "clean (Identity (Request response)) (Slice (length st)) (st @ [bytes]) = (d, st')"
  shows "\<exists>r c'. makeResponse lib c response (Some clean) st = (Returned (Some r), c', st')
           \<and> Data r = Slice (length st)
           \<and> (\<exists>sp'. ctxSpan (ctx c') = Some sp'
                 \<and> last (loggedFields sp') = LogString ''response'' (bytesOf st' d))"
  using assms
  by (simp add: makeResponse_def Let_def Request_shaped traceData_def alloc_def sliceAll_def
        logSpan_def)

text \<open>
  With the test's cleaner, which returns fresh bytes, the span's \<open>response\<close> field is
  \<open>modified\<close> and the body is the encoding.
\<close>

lemma makeResponse_cleaner_modified:
  \<open>fst (makeResponse jsonLib tracedContext (NewResponse fieldsRequest) (Some modifiedCleaner) [])
       = Returned (Some ((NewResponse fieldsRequest)\<lparr>StatusCode := StatusOK, Data := Slice 0\<rparr>))
   \<and> bytesOf (snd (snd (makeResponse jsonLib tracedContext (NewResponse fieldsRequest)
                           (Some modifiedCleaner) [])))
         (Slice 0)
       = ''{"ID":"xxx","name":"the name"}''
   \<and> ctxSpan (ctx (fst (snd (makeResponse jsonLib tracedContext (NewResponse fieldsRequest)
                                (Some modifiedCleaner) []))))
       = Some \<lparr>traceID = ''t1'',
               loggedFields = [LogString ''response'' ''modified''],
               tags = [(''status.code'', StatusOK)]\<rparr>\<close>
  by (simp add: tracedContext_def testLists_def fieldsRequest_def modifiedCleaner_def
      shaping_defs fixture_defs json_defs Let_def)

text \<open>
  C7. The specification has no trace cleaner alter \<open>Response.Data\<close>: the cleaner's
  output is for the span only. But the cleaner is handed \<open>response.Data[:]\<close>, a
  slice of the very array the response holds, and not a copy, so a cleaner that
  redacts in place redacts the body too: with the cleaner that overwrites
  its input with stars, the encoder produces the 30 bytes of
  \<^verbatim>\<open>{"ID":"xxx","name":"the name"}\<close>, the span logs 30 stars as its \<open>response\<close> field,
  and the bytes of the returned response's \<open>Data\<close> are those 30 stars, not the
  encoding.
\<close>

theorem makeResponse_cleaner_aliasing:
  \<open>Encode jsonLib fieldsRequest
      (OutputValue (projectOutput jsonLib (request tracedContext) (PlainIdentifiable (hd testLists))))
     = Inr ''{"ID":"xxx","name":"the name"}''
   \<and> fst (makeResponse jsonLib tracedContext (NewResponse fieldsRequest) (Some starCleaner) [])
       = Returned (Some ((NewResponse fieldsRequest)\<lparr>StatusCode := StatusOK, Data := Slice 0\<rparr>))
   \<and> bytesOf (snd (snd (makeResponse jsonLib tracedContext (NewResponse fieldsRequest)
                           (Some starCleaner) [])))
         (Slice 0)
       = ''******************************''
   \<and> ctxSpan (ctx (fst (snd (makeResponse jsonLib tracedContext (NewResponse fieldsRequest)
                                (Some starCleaner) []))))
       = Some \<lparr>traceID = ''t1'',
               loggedFields = [LogString ''response'' ''******************************''],
               tags = [(''status.code'', StatusOK)]\<rparr>\<close>
  by (simp add: tracedContext_def testLists_def fieldsRequest_def starCleaner_def writeBytes_def
      shaping_defs fixture_defs json_defs Let_def)

subsection \<open>The runner: cancellation and dispatcher errors\<close>


lemma makeErrorResponse_encoded:
  assumes "err \<noteq> ContextCanceled"
  shows "makeErrorResponse lib gc (Some r) err st =
     (case Encode lib (Request r) (ErrorsValue (processError gc err)) of
        Inl m \<Rightarrow> (Panicked (''unable to encode error: '' @ m), st)
      | Inr bytes \<Rightarrow>
          (Returned (Some (r\<lparr>StatusCode := ErrorsCode (processError gc err),
                              Data := Slice (length st)\<rparr>)),
           st @ [bytes]))"
  using assms by (simp add: makeErrorResponse_def Let_def alloc_def split: sum.split)


lemma runDispatcher_result_dropped:
  assumes "d w c = (Returns res, c', w')"
  shows "runDispatcher lib c r d disablePanicRecovery cleaner (ResultDropped later) st w
     = (case later of
          None \<Rightarrow> (Blocked, c', st, w')
        | Some cause \<Rightarrow> errorResult lib c' r cause st w')"
  using assms by (simp add: runDispatcher_def dispatcherTask_def)




subsection \<open>The runner: panics\<close>

text \<open>
  C4. Let the dispatcher panic with value \<open>v\<close>. With panic recovery enabled, the task
  traps the panic and delivers an error of code 500 whose description is the text of
  \<open>v\<close>, and the runner that receives it returns the response with status 500 and
  that error, encoded, as body. With panic recovery disabled, the panic leaves the
  task uncaught and the run dies of it.
\<close>

theorem dispatcher_panic:
  assumes "d w c = (PanicsWith v, c', w')"
  shows "dispatcherTask d False receiving c w
           = (Delivers (Some (ElementalError
                \<lparr>Code = 500, Description = formatPanic v, Subject = ''bahamut'',
                 Title = ''Internal Server Error'', Trace = []\<rparr>)), c', w')
       \<and> runDispatcher lib c r d False cleaner RunnerReceives st w
           = (case Encode lib (Request r) (ErrorsValue
                     [\<lparr>Code = 500, Description = formatPanic v, Subject = ''bahamut'',
                       Title = ''Internal Server Error'',
                       Trace = extractSpanID (ctxSpan (ctx c'))\<rparr>]) of
                Inl m \<Rightarrow> (Panicked (''unable to encode error: '' @ m), c', st, w')
              | Inr bytes \<Rightarrow>
                  (Returned (Some (r\<lparr>StatusCode := 500, Data := Slice (length st)\<rparr>)),
                   c', st @ [bytes], w'))
       \<and> dispatcherTask d True receiving c w = (Crash v, c', w')
       \<and> runDispatcher lib c r d True cleaner RunnerReceives st w
           = (Panicked (formatPanic v), c', st, w')"
  using assms
  by (simp add: runDispatcher_def dispatcherTask_def handleEventualPanic_def
      handleRecoveredPanic_def errorResult_def makeErrorResponse_encoded processError_def
      ErrorsCode_def NewError_def StatusInternalServerError_def split: sum.split)

theorem dispatcher_panic_witness:
  \<open>panickingDispatcher 0 (newContext NewRequest)
       = (PanicsWith (PanicString ''Noooooooooooooooooo''), newContext NewRequest, 1)
   \<and> dispatcherTask panickingDispatcher False True (newContext NewRequest) 0
       = (Delivers (Some (ElementalError
            \<lparr>Code = 500, Description = ''Noooooooooooooooooo'', Subject = ''bahamut'',
             Title = ''Internal Server Error'', Trace = []\<rparr>)), newContext NewRequest, 1)
   \<and> errorMessage (ElementalError
            \<lparr>Code = 500, Description = ''Noooooooooooooooooo'', Subject = ''bahamut'',
             Title = ''Internal Server Error'', Trace = []\<rparr>)
       = ''error 500 (bahamut): Internal Server Error: Noooooooooooooooooo''
   \<and> runDispatcher jsonLib (newContext NewRequest) (NewResponse NewRequest) panickingDispatcher
        False None RunnerReceives [] 0
       = (Returned (Some ((NewResponse NewRequest)\<lparr>StatusCode := 500, Data := Slice 0\<rparr>)),
          newContext NewRequest,
          [''[{"code":500,"data":null,"description":"Noooooooooooooooooo","subject":"bahamut","title":"Internal Server Error","trace":"unknown"}]''],
          1)
   \<and> dispatcherTask panickingDispatcher True True (newContext NewRequest) 0
       = (Crash (PanicString ''Noooooooooooooooooo''), newContext NewRequest, 1)
   \<and> runDispatcher jsonLib (newContext NewRequest) (NewResponse NewRequest) panickingDispatcher
        True None RunnerReceives [] 0
       = (Panicked ''Noooooooooooooooooo'', newContext NewRequest, [], 1)\<close>
proof -
  have d: "panickingDispatcher 0 (newContext NewRequest)
      = (PanicsWith (PanicString ''Noooooooooooooooooo''), newContext NewRequest, 1)"
    by (simp add: panickingDispatcher_def)
  note t = dispatcher_panic [of panickingDispatcher 0 "newContext NewRequest"
      "PanicString ''Noooooooooooooooooo''" "newContext NewRequest" 1
      True jsonLib "NewResponse NewRequest" None "[]", OF d]
  have e: \<open>Encode jsonLib (Request (NewResponse NewRequest)) (ErrorsValue
        [\<lparr>Code = 500, Description = formatPanic (PanicString ''Noooooooooooooooooo''),
          Subject = ''bahamut'', Title = ''Internal Server Error'',
          Trace = extractSpanID (ctxSpan (ctx (newContext NewRequest)))\<rparr>])
      = Inr ''[{"code":500,"data":null,"description":"Noooooooooooooooooo","subject":"bahamut","title":"Internal Server Error","trace":"unknown"}]''\<close>
    by (simp add: runner_defs json_defs fixture_defs)
  have m: \<open>errorMessage (ElementalError
            \<lparr>Code = 500, Description = ''Noooooooooooooooooo'', Subject = ''bahamut'',
             Title = ''Internal Server Error'', Trace = []\<rparr>)
       = ''error 500 (bahamut): Internal Server Error: Noooooooooooooooooo''\<close>
    by (simp add: errorMessage_def elementalErrorText_def showInt_def showNat.simps)
  from t d e m show ?thesis
    by (simp add: formatPanic_def)
qed

subsection \<open>The relationship gate\<close>

lemma errorResult_notAllowed:
  "errorResult lib c (NewResponse (request c)) (notAllowed description) st w
     = canonical405 lib c description st w"
  by (simp add: errorResult_def notAllowed_def makeErrorResponse_encoded canonical405_def
      processError_def ErrorsCode_def NewError_def NewResponse_def StatusMethodNotAllowed_def
      split: sum.split)

text \<open>
  On the HTTP path the gate holds for the seven handlers: when the registry of the
  request's version forbids the operation, the handler's result is the canonical 405
  answer, with the identity's category in the message for RetrieveMany, Info and Patch
  and its name for Retrieve, Create, Update and Delete. The answer does not depend on
  the dispatcher, and the world the dispatcher acts on is unchanged: the dispatcher
  is not run.
\<close>

lemma handlers_relationship_gate:
  assumes "modelManagers cfg (Version (request c)) = Some rel"
  shows "(\<not> allowed rel (Identity (request c)) (ParentIdentity (request c)) OperationRetrieveMany
            \<longrightarrow> handleRetrieveMany lib allowed c cfg d how st w
                  = canonical405 lib c (''RetrieveMany operation not allowed on ''
                                          @ Category (Identity (request c))) st w)
       \<and> (\<not> allowed rel (Identity (request c)) (ParentIdentity (request c)) OperationRetrieve
            \<longrightarrow> handleRetrieve lib allowed c cfg d how st w
                  = canonical405 lib c (''Retrieve operation not allowed on ''
                                          @ Name (Identity (request c))) st w)
       \<and> (\<not> allowed rel (Identity (request c)) (ParentIdentity (request c)) OperationCreate
            \<longrightarrow> handleCreate lib allowed c cfg d how st w
                  = canonical405 lib c (''Create operation not allowed on ''
                                          @ Name (Identity (request c))) st w)
       \<and> (\<not> allowed rel (Identity (request c)) (ParentIdentity (request c)) OperationUpdate
            \<longrightarrow> handleUpdate lib allowed c cfg d how st w
                  = canonical405 lib c (''Update operation not allowed on ''
                                          @ Name (Identity (request c))) st w)
       \<and> (\<not> allowed rel (Identity (request c)) (ParentIdentity (request c)) OperationDelete
            \<longrightarrow> handleDelete lib allowed c cfg d how st w
                  = canonical405 lib c (''Delete operation not allowed on ''
                                          @ Name (Identity (request c))) st w)
       \<and> (\<not> allowed rel (Identity (request c)) (ParentIdentity (request c)) OperationInfo
            \<longrightarrow> handleInfo lib allowed c cfg d how st w
                  = canonical405 lib c (''Info operation not allowed on ''
                                          @ Category (Identity (request c))) st w)
       \<and> (\<not> allowed rel (Identity (request c)) (ParentIdentity (request c)) OperationPatch
            \<longrightarrow> handlePatch lib allowed c cfg d how st w
                  = canonical405 lib c (''Patch operation not allowed on ''
                                          @ Category (Identity (request c))) st w)"
  using assms
  by (simp add: handleRetrieveMany_def handleRetrieve_def handleCreate_def handleUpdate_def
      handleDelete_def handleInfo_def handlePatch_def errorResult_notAllowed)

text \<open>
  On the WebSocket path a refused request is answered with one error frame of status
  405 (\<open>refusal message\<close> below) and the dispatcher is not run. Six of the seven
  handlers use the message the specification gives.
\<close>

lemma wsAPISession_relationship_gate:
  fixes api :: "'r relationshipsAPI" and config :: "'r wsConfig"
    and req :: Request and sock :: socket and w :: 'w
  defines "reg \<equiv> RelationshipsRegistry config (Version req)"
    and "parent \<equiv> (if IsEmpty (ParentIdentity req) then RootIdentity else ParentIdentity req)"
    and "refusal \<equiv> (\<lambda>message.
           (sock @ [Frame ((NewResponse req)\<lparr>StatusCode := 405\<rparr>)
                      [\<lparr>Code = 405, Description = message, Subject = ''bahamut'',
                        Title = ''Not allowed'', Trace = []\<rparr>]], w))"
  shows "(\<not> IsRetrieveManyAllowed api reg (Identity req) parent
            \<longrightarrow> wsAPISession_handleRetrieveMany api run config req d sock w
                  = refusal (''RetrieveMany operation not allowed on '' @ Category (Identity req)))
       \<and> (\<not> IsRetrieveAllowed api reg (Identity req)
            \<longrightarrow> wsAPISession_handleRetrieve api run config req d sock w
                  = refusal (''Retrieve operation not allowed on '' @ Name (Identity req)))
       \<and> (\<not> IsCreateAllowed api reg (Identity req) parent
            \<longrightarrow> wsAPISession_handleCreate api run config req d sock w
                  = refusal (''Create operation not allowed on '' @ Name (Identity req)))
       \<and> (\<not> IsUpdateAllowed api reg (Identity req)
            \<longrightarrow> wsAPISession_handleUpdate api run config req d sock w
                  = refusal (''Update operation not allowed on '' @ Name (Identity req)))
       \<and> (\<not> IsDeleteAllowed api reg (Identity req)
            \<longrightarrow> wsAPISession_handleDelete api run config req d sock w
                  = refusal (''Delete operation not allowed on '' @ Name (Identity req)))
       \<and> (\<not> IsInfoAllowed api reg (Identity req) parent
            \<longrightarrow> wsAPISession_handleInfo api run config req d sock w
                  = refusal (''Info operation not allowed on '' @ Category (Identity req)))"
  unfolding reg_def parent_def refusal_def
  by (simp add: wsAPISession_handleRetrieveMany_def wsAPISession_handleRetrieve_def
      wsAPISession_handleCreate_def wsAPISession_handleUpdate_def wsAPISession_handleDelete_def
      wsAPISession_handleInfo_def writeWebSocketError_def notAllowed_def NewError_def
      ErrorsCode_def StatusMethodNotAllowed_def Let_def)

text \<open>
  C1. The gate holds on both paths but for the message of Patch on the WebSocket
  path: the session's \<open>handlePatch\<close> builds its message from the identity's name,
  where the specification, the HTTP \<open>handlePatch\<close> and \<open>TestHandlers_handlePatch\<close>
  have its category. For a Patch of \<open>user\<close> (category
  \<open>users\<close>) under parent \<open>user\<close>, which the test model forbids, the session writes
  "Patch operation not allowed on user", and the HTTP handler answers
  "Patch operation not allowed on users". Neither runs the dispatcher: the call
  counter stays 0.
\<close>

theorem wsAPISession_handlePatch_message:
  \<open>wsAPISession_handlePatch testRelationshipsAPI directRun testWSConfig patchUserUnderUser
       countingDispatcher [] 0
     = ([Frame ((NewResponse patchUserUnderUser)\<lparr>StatusCode := 405\<rparr>)
           [\<lparr>Code = 405, Description = ''Patch operation not allowed on user'',
             Subject = ''bahamut'', Title = ''Not allowed'', Trace = []\<rparr>]], 0)
   \<and> Name (Identity patchUserUnderUser) = ''user''
   \<and> Category (Identity patchUserUnderUser) = ''users''
   \<and> handlePatch jsonLib testIsOperationAllowed (newContext patchUserUnderUser) testConfig
        countingDispatcher RunnerReceives [] 0
     = (Returned (Some ((NewResponse patchUserUnderUser)\<lparr>StatusCode := 405, Data := Slice 0\<rparr>)),
        newContext patchUserUnderUser,
        [''[{"code":405,"data":null,"description":"Patch operation not allowed on users","subject":"bahamut","title":"Not allowed","trace":"unknown"}]''],
        0)\<close>
  by (simp add: wsAPISession_handlePatch_def handlePatch_def testRelationships_def
      testIsOperationAllowed_def testConfig_def allowedUnder_def testRelationshipsAPI_def
      testWSConfig_def patchUserUnderUser_def UserIdentity_def writeWebSocketError_def
      notAllowed_def RootIdentity_def IsEmpty_def runner_defs json_defs fixture_defs
      alloc_def Let_def)

subsection \<open>Publishing on NATS\<close>

text \<open>
  C10. When the client is nil, \<open>Publish\<close> returns an error and the bus is as it was,
  whatever the publication and the options; and when the encoder rejects the
  publication, \<open>Publish\<close> returns an error and the bus is as it was.
\<close>

theorem Publish_not_connected_or_unencodable:
  "(client p = None \<longrightarrow>
      (\<exists>err. Publish api encodeMSGPACK p publication opts b = (Some err, b)))
   \<and> (encodeMSGPACK publication = Inl m \<longrightarrow>
      (\<exists>err. Publish api encodeMSGPACK p publication opts b = (Some err, b)))"
  by (simp add: Publish_def Let_def split: option.split)

theorem Publish_not_connected_or_unencodable_witness:
  "client (NewNATSPubSubClient ''nats://localhost:4222'' ''id'' [] :: unit natsPubSub) = None
   \<and> Publish loopbackNats plainEncode (NewNATSPubSubClient ''nats://localhost:4222'' ''id'' [])
        helloPublication [] []
       = (Some (ErrorString ''not connected to nats. messages dropped''), [])
   \<and> rejectingEncode helloPublication = Inl ''unsupported value''
   \<and> Publish loopbackNats rejectingEncode
        ((NewNATSPubSubClient ''nats://localhost:4222'' ''id'' [])\<lparr>client := Some ()\<rparr>)
        helloPublication [] []
       = (Some (ErrorString ''unable to encode publication. message dropped: unsupported value''), [])
   \<and> Publish loopbackNats plainEncode
        ((NewNATSPubSubClient ''nats://localhost:4222'' ''id'' [])\<lparr>client := Some ()\<rparr>)
        helloPublication [] []
       = (None, [(''topic'', ''topic:hello'')])"
proof -
  let ?p = "NewNATSPubSubClient ''nats://localhost:4222'' ''id'' [] :: unit natsPubSub"
  have h1: "client ?p = None" by (simp add: NewNATSPubSubClient_def)
  have h2: "rejectingEncode helloPublication = Inl ''unsupported value''"
    by (simp add: rejectingEncode_def)
  note t1 = Publish_not_connected_or_unencodable
      [of ?p loopbackNats plainEncode helloPublication "[]" "[]"]
  note t2 = Publish_not_connected_or_unencodable
      [of "?p\<lparr>client := Some ()\<rparr>" loopbackNats rejectingEncode helloPublication "[]" "[]"
          "''unsupported value''"]
  from t1 h1 have e1: "Publish loopbackNats plainEncode ?p helloPublication [] []
       = (Some (ErrorString ''not connected to nats. messages dropped''), [])"
    by (simp add: Publish_def NewNATSPubSubClient_def)
  from t2 h2 have e2: "Publish loopbackNats rejectingEncode (?p\<lparr>client := Some ()\<rparr>)
        helloPublication [] []
       = (Some (ErrorString ''unable to encode publication. message dropped: unsupported value''), [])"
    by (simp add: Publish_def NewNATSPubSubClient_def)
  have e3: "Publish loopbackNats plainEncode (?p\<lparr>client := Some ()\<rparr>) helloPublication [] []
       = (None, [(''topic'', ''topic:hello'')])"
    by (simp add: Publish_def NewNATSPubSubClient_def plainEncode_def loopbackNats_def
        helloPublication_def)
  from h1 h2 e1 e2 e3 show ?thesis by simp
qed

subsection \<open>Push server: registration\<close>

lemma registerSession_present:
  "sessions srv (sessionID s) = Some s' \<Longrightarrow> registerSession s srv = srv"
  by (simp add: registerSession_def)

lemma unregisterSession_absent:
  "sessions srv (sessionID s) = None \<Longrightarrow> unregisterSession s srv = srv"
  by (simp add: unregisterSession_def)

lemma startsLessStops_append:
  "startsLessStops (xs @ ys) = startsLessStops xs + startsLessStops ys"
  by (induction xs rule: startsLessStops.induct) simp_all

text \<open>
  C8. Registering a session a second time changes nothing. After it the sessions hold
  that session under its identifier, and no identifier besides those held before; if
  the session was not registered before, the handler's count has gone up by one, not
  two. Unregistering a session that is not registered changes nothing, and so does
  unregistering a second time.
\<close>

theorem registerSession_idempotent:
  "registerSession s (registerSession s srv) = registerSession s srv
   \<and> (\<exists>s'. sessions (registerSession s (registerSession s srv)) (sessionID s) = Some s')
   \<and> dom (sessions (registerSession s (registerSession s srv)))
       = insert (sessionID s) (dom (sessions srv))
   \<and> (sessions srv (sessionID s) = None \<longrightarrow>
         sessions (registerSession s (registerSession s srv)) (sessionID s) = Some s
         \<and> sessionCount (registerSession s (registerSession s srv)) = sessionCount srv + 1
         \<and> unregisterSession s srv = srv)
   \<and> unregisterSession s (unregisterSession s srv) = unregisterSession s srv"
proof (intro conjI impI)
  show idem: "registerSession s (registerSession s srv) = registerSession s srv"
    by (cases "sessions srv (sessionID s)") (simp_all add: registerSession_def)
  show "\<exists>s'. sessions (registerSession s (registerSession s srv)) (sessionID s) = Some s'"
    unfolding idem by (cases "sessions srv (sessionID s)") (simp_all add: registerSession_def)
  show "dom (sessions (registerSession s (registerSession s srv)))
       = insert (sessionID s) (dom (sessions srv))"
    unfolding idem
    by (cases "sessions srv (sessionID s)") (auto simp add: registerSession_def)
  show "unregisterSession s (unregisterSession s srv) = unregisterSession s srv"
    by (cases "sessions srv (sessionID s)") (simp_all add: unregisterSession_def)
next
  assume absent: "sessions srv (sessionID s) = None"
  have idem: "registerSession s (registerSession s srv) = registerSession s srv"
    by (cases "sessions srv (sessionID s)") (simp_all add: registerSession_def)
  from absent show "sessions (registerSession s (registerSession s srv)) (sessionID s) = Some s"
    unfolding idem by (simp add: registerSession_def)
  from absent show "sessionCount (registerSession s (registerSession s srv)) = sessionCount srv + 1"
    unfolding idem by (simp add: registerSession_def sessionCount_def startsLessStops_append)
  from absent show "unregisterSession s srv = srv"
    by (rule unregisterSession_absent)
qed

theorem registerSession_idempotent_witness:
  "sessions newPushServer (sessionID firstSession) = None
   \<and> registerSession firstSession (registerSession firstSession newPushServer)
       = \<lparr>sessions = [''s1'' \<mapsto> firstSession], handlerCalls = [OnPushSessionStart ''s1'']\<rparr>
   \<and> dom (sessions (registerSession firstSession (registerSession firstSession newPushServer)))
       = {''s1''}
   \<and> sessionCount (registerSession firstSession (registerSession firstSession newPushServer)) = 1
   \<and> unregisterSession firstSession newPushServer = newPushServer
   \<and> sessionCount (unregisterSession firstSession (unregisterSession firstSession
        (registerSession firstSession newPushServer))) = 0
   \<and> dom (sessions (unregisterSession firstSession (unregisterSession firstSession
        (registerSession firstSession newPushServer)))) = {}"
proof -
  have absent: "sessions newPushServer (sessionID firstSession) = None"
    by (simp add: newPushServer_def)
  note t = registerSession_idempotent [of firstSession newPushServer]
  have once: "registerSession firstSession newPushServer
      = \<lparr>sessions = [''s1'' \<mapsto> firstSession], handlerCalls = [OnPushSessionStart ''s1'']\<rparr>"
    by (simp add: registerSession_def newPushServer_def firstSession_def)
  have zero: "sessionCount newPushServer = 0"
    by (simp add: sessionCount_def newPushServer_def)
  have gone: "unregisterSession firstSession (registerSession firstSession newPushServer)
      = \<lparr>sessions = Map.empty,
         handlerCalls = [OnPushSessionStart ''s1'', OnPushSessionStop ''s1'']\<rparr>"
    unfolding once by (simp add: unregisterSession_def firstSession_def)
  have twice: "unregisterSession firstSession
        \<lparr>sessions = Map.empty,
         handlerCalls = [OnPushSessionStart ''s1'', OnPushSessionStop ''s1'']\<rparr>
      = \<lparr>sessions = Map.empty,
         handlerCalls = [OnPushSessionStart ''s1'', OnPushSessionStop ''s1'']\<rparr>"
    by (simp add: unregisterSession_def)
  from t absent once zero gone twice show ?thesis
    by (simp add: firstSession_def sessionCount_def)
qed

end
